theory Spec2Isabelle
  imports Complex_Main
begin

section \<open>JavaScript values\<close>

text \<open>
  The engine (\<^verbatim>\<open>src/engine/astrology.js\<close>) computes with JavaScript numbers. A finite
  number is modelled as a real number and its arithmetic is exact. The type \<open>js_number\<close>
  adds NaN and the two infinities; it is the type of the arguments and of the result of
  \<^verbatim>\<open>swe_julday\<close> and of the Julian Day handed on to \<^verbatim>\<open>swe_houses\<close>. Positions and
  coordinates are finite in the model, so the \<^verbatim>\<open>Number.isFinite\<close> guards on a latitude or a
  longitude always pass and are not written. Everything proved below is about this
  exact-arithmetic reading of the code.

  A thrown \<^verbatim>\<open>Error(msg)\<close> is the value \<open>Inl (Error msg)\<close>; reading a property of
  \<^verbatim>\<open>undefined\<close> is \<open>Inl TypeError\<close>.
\<close>

datatype error = Error string | TypeError

datatype js_number = Num real | NaN | PosInfinity | NegInfinity

definition isInteger :: "real \<Rightarrow> bool" where
  \<comment> \<open>\<^verbatim>\<open>Number.isInteger\<close> on a finite number; it is false on NaN and the infinities\<close>
  "isInteger x = (real_of_int \<lfloor>x\<rfloor> = x)"

fun number_lt :: "js_number \<Rightarrow> real \<Rightarrow> bool" where
  \<comment> \<open>\<^verbatim>\<open>x < c\<close> for a finite \<open>c\<close>; every comparison with NaN is false\<close>
  "number_lt (Num x) c = (x < c)"
| "number_lt NaN c = False"
| "number_lt PosInfinity c = False"
| "number_lt NegInfinity c = True"

fun number_ge :: "js_number \<Rightarrow> real \<Rightarrow> bool" where
  \<comment> \<open>\<^verbatim>\<open>x >= c\<close> for a finite \<open>c\<close>\<close>
  "number_ge (Num x) c = (c \<le> x)"
| "number_ge NaN c = False"
| "number_ge PosInfinity c = True"
| "number_ge NegInfinity c = False"

fun add_day_fraction :: "real \<Rightarrow> js_number \<Rightarrow> js_number" where
  \<comment> \<open>\<^verbatim>\<open>jd + (hour - 12) / 24.0\<close> for a finite \<open>jd\<close>\<close>
  "add_day_fraction jd (Num hour) = Num (jd + (hour - 12) / 24)"
| "add_day_fraction jd NaN = NaN"
| "add_day_fraction jd PosInfinity = PosInfinity"
| "add_day_fraction jd NegInfinity = NegInfinity"

definition Math_floor :: "real \<Rightarrow> real" where
  "Math_floor x = real_of_int \<lfloor>x\<rfloor>"

definition js_rem :: "real \<Rightarrow> real \<Rightarrow> real" where
  \<comment> \<open>the operator \<^verbatim>\<open>%\<close>: the quotient is truncated towards zero, so the
      result has the sign of the dividend\<close>
  "js_rem x y = x - y * real_of_int (if 0 \<le> x / y then \<lfloor>x / y\<rfloor> else \<lceil>x / y\<rceil>)"

definition digit_char :: "nat \<Rightarrow> char" where
  "digit_char d = ''0123456789'' ! d"

fun decimal :: "nat \<Rightarrow> string" where
  "decimal n = (if n < 10 then [digit_char n] else decimal (n div 10) @ [digit_char (n mod 10)])"

declare decimal.simps [simp del]

definition toFixed2 :: "real \<Rightarrow> string" where
  \<comment> \<open>\<^verbatim>\<open>x.toFixed(2)\<close> for \<open>\<bar>x\<bar> < 10^21\<close>: the nearest multiple of 1/100, a tie going
      to the larger one, printed with at least one digit before the point\<close>
  "toFixed2 x =
     (let s = (if x < 0 then ''-'' else '''');
          x' = (if x < 0 then - x else x);
          n = nat \<lfloor>x' * 100 + 1 / 2\<rfloor>;
          m = decimal n;
          m' = (if length m \<le> 2 then replicate (3 - length m) (CHR ''0'') @ m else m);
          k = length m'
      in s @ take (k - 2) m' @ ''.'' @ drop (k - 2) m')"

definition js_index :: "real list \<Rightarrow> nat \<Rightarrow> real option" where
  \<comment> \<open>\<^verbatim>\<open>xs[i]\<close>; \<open>None\<close> is \<^verbatim>\<open>undefined\<close>\<close>
  "js_index xs i = (if i < length xs then Some (xs ! i) else None)"

fun js_le :: "real option \<Rightarrow> real option \<Rightarrow> bool" where
  \<comment> \<open>\<^verbatim>\<open><=\<close>; a comparison with \<^verbatim>\<open>undefined\<close> is false\<close>
  "js_le (Some a) (Some b) = (a \<le> b)"
| "js_le _ _ = False"

fun js_lt :: "real option \<Rightarrow> real option \<Rightarrow> bool" where
  "js_lt (Some a) (Some b) = (a < b)"
| "js_lt _ _ = False"

section \<open>Time conversion: \<^verbatim>\<open>SwissEphemeris.swe_julday\<close>\<close>

definition SE_GREG_CAL :: real where "SE_GREG_CAL = 1"
definition SE_JUL_CAL :: real where "SE_JUL_CAL = 0"

text \<open>
  \<^verbatim>\<open>Number.isInteger\<close> is false on NaN and on the infinities, so a year, month or day
  that is not finite takes the first branch of the guard: the last equation. The hour has
  only the two comparisons \<^verbatim>\<open>hour < 0 || hour >= 24\<close>.
\<close>

fun swe_julday ::
  "js_number \<Rightarrow> js_number \<Rightarrow> js_number \<Rightarrow> js_number \<Rightarrow> real \<Rightarrow> error + js_number" where
  "swe_julday (Num year) (Num month) (Num day) hour calendar =
     (if \<not> isInteger year \<or> \<not> isInteger month \<or> \<not> isInteger day \<or>
         month < 1 \<or> month > 12 \<or> day < 1 \<or> day > 31 \<or> number_lt hour 0 \<or> number_ge hour 24
      then Inl (Error ''Invalid date or time parameters'')
      else
        let a = Math_floor ((14 - month) / 12);
            y = year + 4800 - a;
            m = month + 12 * a - 3;
            jd = day + Math_floor ((153 * m + 2) / 5) + 365 * y + Math_floor (y / 4)
        in if calendar = SE_GREG_CAL
           then Inr (add_day_fraction
                  (jd - Math_floor (y / 100) + Math_floor (y / 400) - 32045) hour)
           else if calendar = SE_JUL_CAL
           then Inr (add_day_fraction (jd - 32083) hour)
           else Inl (Error ''Invalid calendar type''))"
| "swe_julday _ _ _ _ _ = Inl (Error ''Invalid date or time parameters'')"

declare swe_julday.simps(1) [simp del]

text \<open>
  The Gregorian Julian-Day-Number formula as the specification words it, over the
  integers (\<open>div\<close> is floor division).
\<close>

definition gregorian_jdn :: "int \<Rightarrow> int \<Rightarrow> int \<Rightarrow> int" where
  "gregorian_jdn year month day =
     (let a = (14 - month) div 12;
          y = year + 4800 - a;
          m = month + 12 * a - 3
      in day + (153 * m + 2) div 5 + 365 * y + y div 4 - y div 100 + y div 400 - 32045)"

section \<open>House system: \<^verbatim>\<open>SwissEphemeris.swe_houses\<close>\<close>

definition SE_HSYS_PLACIDUS :: string where "SE_HSYS_PLACIDUS = ''P''"
definition SE_HSYS_KOCH :: string where "SE_HSYS_KOCH = ''K''"
definition SE_HSYS_EQUAL :: string where "SE_HSYS_EQUAL = ''E''"

definition calculateLocalSiderealTime :: "real \<Rightarrow> real \<Rightarrow> error + real" where
  \<comment> \<open>the method of \<^verbatim>\<open>SwissEphemeris\<close>, which \<^verbatim>\<open>swe_houses\<close> calls\<close>
  "calculateLocalSiderealTime jd longitude =
     (if \<bar>longitude\<bar> > 180 then Inl (Error ''Longitude out of range'')
      else
        let t = (jd - 2451545.0) / 36525.0;
            gmst = 280.46061837 + 360.98564736629 * (jd - 2451545.0) + 0.000387933 * t * t;
            lst = (gmst + longitude) / 15.0
        in Inr (js_rem (js_rem lst 24 + 24) 24))"

record houses_result =
  houses :: "real list"
  ascendant :: "real option"
  mc :: "real option"

definition swe_houses :: "js_number \<Rightarrow> real \<Rightarrow> real \<Rightarrow> string \<Rightarrow> error + houses_result" where
  \<comment> \<open>the first case distinction is \<^verbatim>\<open>Number.isFinite(tjd_ut)\<close>\<close>
  "swe_houses tjd_ut lat lon hsys =
     (case tjd_ut of
        Num t \<Rightarrow>
          if \<bar>lat\<bar> > 90 \<or> \<bar>lon\<bar> > 180 then Inl (Error ''Latitude or longitude out of range'')
          else if hsys \<notin> set [SE_HSYS_PLACIDUS, SE_HSYS_KOCH, SE_HSYS_EQUAL]
          then Inl (Error ''Invalid house system'')
          else
            (case calculateLocalSiderealTime t lon of
               Inl e \<Rightarrow> Inl e
             | Inr lst \<Rightarrow>
                 let hs = map (\<lambda>i. js_rem (lst * 15 + real i * 30) 360) [0..<12]
                 in Inr \<lparr>houses = hs, ascendant = js_index hs 0, mc = js_index hs 9\<rparr>)
      | _ \<Rightarrow> Inl (Error ''Invalid Julian Day, latitude, or longitude''))"

section \<open>The engine: houses of a chart\<close>

record coords =
  lat :: real
  lon :: real
  display_name :: string

definition calculateHouses :: "js_number \<Rightarrow> coords \<Rightarrow> error + real list" where
  "calculateHouses jd c =
     (case swe_houses jd (lat c) (lon c) SE_HSYS_PLACIDUS of
        Inl e \<Rightarrow> Inl e
      | Inr houseResult \<Rightarrow> Inr (houses houseResult))"

function getPlanetHouse_loop :: "real \<Rightarrow> real list \<Rightarrow> nat \<Rightarrow> nat" where
  "getPlanetHouse_loop planetPosition hs house =
     (if house < 12 then
        let currentHouse = js_index hs house;
            nextHouse = js_index hs (if house = 11 then 0 else house + 1)
        in if js_le currentHouse nextHouse then
             (if js_le currentHouse (Some planetPosition) \<and> js_lt (Some planetPosition) nextHouse
              then house + 1
              else getPlanetHouse_loop planetPosition hs (house + 1))
           else
             (if js_le currentHouse (Some planetPosition) \<or> js_lt (Some planetPosition) nextHouse
              then house + 1
              else getPlanetHouse_loop planetPosition hs (house + 1))
      else 1)"
  by pat_completeness auto
termination
  by (relation "measure (\<lambda>(p, hs, house). 12 - house)") auto

declare getPlanetHouse_loop.simps [simp del]

definition getPlanetHouse :: "real \<Rightarrow> real list \<Rightarrow> nat" where
  "getPlanetHouse planetPosition hs = getPlanetHouse_loop planetPosition hs 0"

text \<open>
  The arc of house \<open>i + 1\<close> as the specification words it: the half-open arc from cusp
  \<open>i\<close> to cusp \<open>i + 1 mod 12\<close>, wrapping through 360 when the first cusp is the larger.
\<close>

definition inArc :: "real \<Rightarrow> real list \<Rightarrow> nat \<Rightarrow> bool" where
  "inArc p cusps i =
     (let c = cusps ! i; n = cusps ! ((i + 1) mod 12)
      in if n < c then c \<le> p \<or> p < n else c \<le> p \<and> p < n)"

section \<open>Aspect classifier: \<^verbatim>\<open>findAspect\<close> and \<^verbatim>\<open>calculateAspectStrength\<close>\<close>

record aspect_entry =
  entry_name :: string
  entry_angle :: real
  entry_orb :: real
  entry_strength :: real

text \<open>
  The \<^verbatim>\<open>orb\<close> field of a result is the string made by \<^verbatim>\<open>toFixed(2)\<close> when an aspect
  matches and the number 0 when none does.
\<close>

datatype orb_value = OrbNumber real | OrbString string

record aspect_result =
  name :: string
  orb :: orb_value
  strength :: real

definition findAspect_aspects :: "aspect_entry list" where
  "findAspect_aspects =
     [\<lparr>entry_name = ''Conjunction'', entry_angle = 0, entry_orb = 8, entry_strength = 1.0\<rparr>,
      \<lparr>entry_name = ''Semisextile'', entry_angle = 30, entry_orb = 3, entry_strength = 0.3\<rparr>,
      \<lparr>entry_name = ''Sextile'', entry_angle = 60, entry_orb = 6, entry_strength = 0.8\<rparr>,
      \<lparr>entry_name = ''Square'', entry_angle = 90, entry_orb = 8, entry_strength = 0.6\<rparr>,
      \<lparr>entry_name = ''Trine'', entry_angle = 120, entry_orb = 8, entry_strength = 0.9\<rparr>,
      \<lparr>entry_name = ''Sesquiquadrate'', entry_angle = 135, entry_orb = 3, entry_strength = 0.4\<rparr>,
      \<lparr>entry_name = ''Quincunx'', entry_angle = 150, entry_orb = 3, entry_strength = 0.3\<rparr>,
      \<lparr>entry_name = ''Opposition'', entry_angle = 180, entry_orb = 8, entry_strength = 0.7\<rparr>]"

definition separation :: "real \<Rightarrow> real \<Rightarrow> real" where
  \<comment> \<open>the local \<^verbatim>\<open>angle\<close> of both \<^verbatim>\<open>findAspect\<close> and \<^verbatim>\<open>calculateAspectStrength\<close>\<close>
  "separation pos1 pos2 = (let diff = \<bar>pos1 - pos2\<bar> in min diff (360 - diff))"

fun findAspect_scan :: "real \<Rightarrow> aspect_entry list \<Rightarrow> aspect_result" where
  "findAspect_scan angle [] = \<lparr>name = ''None'', orb = OrbNumber 0, strength = 0\<rparr>"
| "findAspect_scan angle (aspect # rest) =
     (let aspectDiff = \<bar>angle - entry_angle aspect\<bar>
      in if aspectDiff \<le> entry_orb aspect then
           (let exactness = 1 - aspectDiff / entry_orb aspect
            in \<lparr>name = entry_name aspect,
                orb = OrbString (toFixed2 aspectDiff),
                strength = entry_strength aspect * exactness\<rparr>)
         else findAspect_scan angle rest)"

definition findAspect :: "real \<Rightarrow> real \<Rightarrow> aspect_result" where
  "findAspect pos1 pos2 = findAspect_scan (separation pos1 pos2) findAspect_aspects"

text \<open>
  The table of \<^verbatim>\<open>calculateAspectStrength\<close> has no names; an entry is
  (angle, orb, strength).
\<close>

definition calculateAspectStrength_aspects :: "(real \<times> real \<times> real) list" where
  "calculateAspectStrength_aspects =
     [(0, 8, 1.0), (60, 6, 0.8), (90, 8, 0.6), (120, 8, 0.9), (180, 8, 0.7)]"

fun calculateAspectStrength_scan :: "real \<Rightarrow> (real \<times> real \<times> real) list \<Rightarrow> real" where
  "calculateAspectStrength_scan angle [] = 0"
| "calculateAspectStrength_scan angle ((a_angle, a_orb, a_strength) # rest) =
     (let aspectDiff = \<bar>angle - a_angle\<bar>
      in if aspectDiff \<le> a_orb then
           (let exactness = 1 - aspectDiff / a_orb in a_strength * exactness)
         else calculateAspectStrength_scan angle rest)"

definition calculateAspectStrength :: "real \<Rightarrow> real \<Rightarrow> real" where
  "calculateAspectStrength pos1 pos2 =
     calculateAspectStrength_scan (separation pos1 pos2) calculateAspectStrength_aspects"

text \<open>
  The strength of a classifier result when only the five aspects of the table of
  \<^verbatim>\<open>calculateAspectStrength\<close> count.
\<close>

definition majorStrength :: "aspect_result \<Rightarrow> real" where
  "majorStrength r =
     (if name r \<in> set [''Conjunction'', ''Sextile'', ''Square'', ''Trine'', ''Opposition'']
      then strength r else 0)"

section \<open>Charts\<close>

text \<open>
  A chart is the object the engine stores per user. The synastry functions read its
  sixteen positions and the birth data; the house indices and the natal aspect list kept
  in the same object are read by none of the functions modelled here.
\<close>

record user =
  username :: string
  dateOfBirth :: string
  timeOfBirth :: string
  placeOfBirth :: string
  sunPosition :: real
  moonPosition :: real
  mercuryPosition :: real
  venusPosition :: real
  marsPosition :: real
  jupiterPosition :: real
  saturnPosition :: real
  uranusPosition :: real
  neptunePosition :: real
  plutoPosition :: real
  trueNodePosition :: real
  chironPosition :: real
  fortunaPosition :: real
  vertexPosition :: real
  ascendantPosition :: real
  midHeavenPosition :: real

section \<open>The collaborators: geocoder and \<^verbatim>\<open>Date\<close>\<close>

text \<open>
  The geocoding library and the platform's \<^verbatim>\<open>Date\<close> are not code of the repository;
  they are parameters. \<open>geocode\<close> answers a location with a list of results or fails;
  \<open>newDate\<close> parses a string, \<open>None\<close> being the Invalid Date, whose getters
  return NaN. The cache \<^verbatim>\<open>geocodeCache\<close> is written by \<^verbatim>\<open>geocodeLocation\<close> and read
  nowhere, so it is not part of the model.
\<close>

record geocode_result =
  latitude :: real
  longitude :: real
  formattedAddress :: string

record js_date =
  getFullYear :: real
  getMonth :: real
  getDate :: real
  getHours :: real
  getMinutes :: real
  getSeconds :: real

record environment =
  geocode :: "string \<Rightarrow> error + geocode_result list"
  newDate :: "string \<Rightarrow> js_date option"

definition geocodeLocation :: "environment \<Rightarrow> string \<Rightarrow> error + coords" where
  "geocodeLocation env location =
     (case geocode env location of
        Inl e \<Rightarrow> Inl e
      | Inr results \<Rightarrow>
          (case results of
             [] \<Rightarrow> Inl TypeError
           | r # _ \<Rightarrow>
               Inr \<lparr>lat = latitude r, lon = longitude r, display_name = formattedAddress r\<rparr>))"

definition dateToJulianDay :: "environment \<Rightarrow> string \<Rightarrow> string \<Rightarrow> error + js_number" where
  \<comment> \<open>NaN is not an integer, so \<^verbatim>\<open>swe_julday\<close> rejects the Invalid Date\<close>
  "dateToJulianDay env dateStr timeStr =
     (case newDate env (dateStr @ ''T'' @ timeStr) of
        None \<Rightarrow> Inl (Error ''Invalid date or time parameters'')
      | Some date \<Rightarrow>
          let hour = getHours date + getMinutes date / 60.0 + getSeconds date / 3600.0
          in swe_julday (Num (getFullYear date)) (Num (getMonth date + 1)) (Num (getDate date))
               (Num hour) SE_GREG_CAL)"

section \<open>Synastry engine\<close>

definition calculateVenusMarsSynastry :: "user \<Rightarrow> user \<Rightarrow> real" where
  "calculateVenusMarsSynastry user1 user2 =
     (let venus1Mars2 = calculateAspectStrength (venusPosition user1) (marsPosition user2);
          venus2Mars1 = calculateAspectStrength (venusPosition user2) (marsPosition user1)
      in (venus1Mars2 + venus2Mars1) / 2)"

definition fullChart_planets :: "user \<Rightarrow> real list" where
  \<comment> \<open>the arrays \<^verbatim>\<open>planets1\<close> and \<^verbatim>\<open>planets2\<close> of \<^verbatim>\<open>calculateFullChartSynastry\<close>\<close>
  "fullChart_planets u =
     [sunPosition u, moonPosition u, mercuryPosition u, venusPosition u,
      marsPosition u, jupiterPosition u, saturnPosition u, uranusPosition u,
      neptunePosition u, plutoPosition u, trueNodePosition u, chironPosition u,
      fortunaPosition u, vertexPosition u, ascendantPosition u, midHeavenPosition u]"

text \<open>The two nested loops carry \<^verbatim>\<open>(totalAspects, aspectCount)\<close>.\<close>

fun fullChart_inner :: "real \<Rightarrow> real list \<Rightarrow> real \<times> nat \<Rightarrow> real \<times> nat" where
  "fullChart_inner p1 [] acc = acc"
| "fullChart_inner p1 (p2 # rest) (totalAspects, aspectCount) =
     fullChart_inner p1 rest (totalAspects + calculateAspectStrength p1 p2, aspectCount + 1)"

fun fullChart_outer :: "real list \<Rightarrow> real list \<Rightarrow> real \<times> nat \<Rightarrow> real \<times> nat" where
  "fullChart_outer [] planets2 acc = acc"
| "fullChart_outer (p1 # rest) planets2 acc =
     fullChart_outer rest planets2 (fullChart_inner p1 planets2 acc)"

definition calculateFullChartSynastry :: "user \<Rightarrow> user \<Rightarrow> real" where
  "calculateFullChartSynastry user1 user2 =
     (case fullChart_outer (fullChart_planets user1) (fullChart_planets user2) (0, 0) of
        (totalAspects, aspectCount) \<Rightarrow>
          if aspectCount > 0 then totalAspects / real aspectCount else 0)"

text \<open>
  An entry of the aspect list has the fields \<^verbatim>\<open>orb\<close> and \<^verbatim>\<open>strength\<close> again; they are
  \<open>aspect_orb\<close> and \<open>aspect_strength\<close> here, apart from those of a classifier result.
\<close>

record synastry_aspect =
  planet1 :: string
  planet2 :: string
  aspect :: string
  aspect_orb :: orb_value
  aspect_strength :: real

record synastry_aspects =
  aspects :: "synastry_aspect list"
  score :: real
  count :: nat

definition synastry_planets :: "user \<Rightarrow> (string \<times> real) list" where
  \<comment> \<open>the arrays \<^verbatim>\<open>planets1\<close> and \<^verbatim>\<open>planets2\<close> of \<^verbatim>\<open>calculateSynastryAspects\<close>\<close>
  "synastry_planets u =
     [(''sun'', sunPosition u), (''moon'', moonPosition u), (''mercury'', mercuryPosition u),
      (''venus'', venusPosition u), (''mars'', marsPosition u), (''jupiter'', jupiterPosition u),
      (''saturn'', saturnPosition u), (''uranus'', uranusPosition u),
      (''neptune'', neptunePosition u), (''pluto'', plutoPosition u),
      (''ascendant'', ascendantPosition u), (''midheaven'', midHeavenPosition u)]"

text \<open>The two nested \<^verbatim>\<open>forEach\<close> carry \<^verbatim>\<open>(aspects, totalScore)\<close>.\<close>

fun synastry_inner ::
  "string \<times> real \<Rightarrow> (string \<times> real) list \<Rightarrow> synastry_aspect list \<times> real
     \<Rightarrow> synastry_aspect list \<times> real" where
  "synastry_inner p1 [] acc = acc"
| "synastry_inner p1 (p2 # rest) (asps, totalScore) =
     (let a = findAspect (snd p1) (snd p2)
      in synastry_inner p1 rest
           (asps @ [\<lparr>planet1 = fst p1, planet2 = fst p2, aspect = name a,
                      aspect_orb = orb a, aspect_strength = strength a\<rparr>],
            totalScore + strength a))"

fun synastry_outer ::
  "(string \<times> real) list \<Rightarrow> (string \<times> real) list \<Rightarrow> synastry_aspect list \<times> real
     \<Rightarrow> synastry_aspect list \<times> real" where
  "synastry_outer [] planets2 acc = acc"
| "synastry_outer (p1 # rest) planets2 acc =
     synastry_outer rest planets2 (synastry_inner p1 planets2 acc)"

definition calculateSynastryAspects :: "user \<Rightarrow> user \<Rightarrow> synastry_aspects" where
  "calculateSynastryAspects user1 user2 =
     (case synastry_outer (synastry_planets user1) (synastry_planets user2) ([], 0) of
        (asps, totalScore) \<Rightarrow>
          \<lparr>aspects = asps,
           score = (if length asps > 0 then totalScore / real (length asps) else 0),
           count = length asps\<rparr>)"

record transposition =
  planet :: string
  house :: nat
  owner :: string
  inChart :: string

text \<open>
  The field \<^verbatim>\<open>score\<close> of the overlay result is \<open>overlay_score\<close> here, apart from the
  \<open>score\<close> of the synastry aspects.
\<close>

record house_transpositions =
  transpositions :: "transposition list"
  overlay_score :: real
  harmoniousCount :: nat
  totalPlacements :: nat

definition overlay_planets :: "user \<Rightarrow> (string \<times> real) list" where
  \<comment> \<open>the array \<^verbatim>\<open>planets\<close> of \<^verbatim>\<open>calculateHouseTranspositions\<close>\<close>
  "overlay_planets u =
     [(''Sun'', sunPosition u), (''Moon'', moonPosition u), (''Venus'', venusPosition u),
      (''Mars'', marsPosition u), (''Jupiter'', jupiterPosition u),
      (''Saturn'', saturnPosition u)]"

text \<open>The \<^verbatim>\<open>forEach\<close> carries \<^verbatim>\<open>(transpositions, harmoniousCount)\<close>.\<close>

fun overlay_loop ::
  "user \<Rightarrow> user \<Rightarrow> real list \<Rightarrow> (string \<times> real) list \<Rightarrow> transposition list \<times> nat
     \<Rightarrow> transposition list \<times> nat" where
  "overlay_loop user1 user2 user2Houses [] acc = acc"
| "overlay_loop user1 user2 user2Houses (p # rest) (ts, harmonious) =
     (let h = getPlanetHouse (snd p) user2Houses
      in overlay_loop user1 user2 user2Houses rest
           (ts @ [\<lparr>planet = fst p, house = h, owner = username user1,
                    inChart = username user2\<rparr>],
            (if h \<in> set [1, 5, 7, 9, 11] then harmonious + 1 else harmonious)))"

definition calculateHouseTranspositions ::
  "environment \<Rightarrow> user \<Rightarrow> user \<Rightarrow> error + house_transpositions" where
  "calculateHouseTranspositions env user1 user2 =
     (let planets = overlay_planets user1
      in case geocodeLocation env (placeOfBirth user2) of
           Inl e \<Rightarrow> Inl e
         | Inr c \<Rightarrow>
             (case dateToJulianDay env (dateOfBirth user2) (timeOfBirth user2) of
                Inl e \<Rightarrow> Inl e
              | Inr jd \<Rightarrow>
                  (case calculateHouses jd c of
                     Inl e \<Rightarrow> Inl e
                   | Inr user2Houses \<Rightarrow>
                       (case overlay_loop user1 user2 user2Houses planets ([], 0) of
                          (ts, harmonious) \<Rightarrow>
                            Inr \<lparr>transpositions = ts,
                                 overlay_score =
                                   (if length planets > 0
                                    then real harmonious / real (length planets) else 0),
                                 harmoniousCount = harmonious,
                                 totalPlacements = length planets\<rparr>))))"

record compatibility =
  compatibilityScore :: real
  venusMarsSynastry :: real
  fullChartSynastry :: real
  synastryAspects :: synastry_aspects
  houseTranspositions :: house_transpositions

definition calculateCompatibility ::
  "environment \<Rightarrow> user \<Rightarrow> user \<Rightarrow> error + compatibility" where
  "calculateCompatibility env user1 user2 =
     (let vm = calculateVenusMarsSynastry user1 user2;
          fc = calculateFullChartSynastry user1 user2;
          sa = calculateSynastryAspects user1 user2
      in case calculateHouseTranspositions env user1 user2 of
           Inl e \<Rightarrow> Inl e
         | Inr ht \<Rightarrow>
             Inr \<lparr>compatibilityScore =
                    (vm * 0.4) + (fc * 0.3) + (score sa * 0.2) + (overlay_score ht * 0.1),
                  venusMarsSynastry = vm,
                  fullChartSynastry = fc,
                  synastryAspects = sa,
                  houseTranspositions = ht\<rparr>)"

section \<open>Concrete inputs\<close>

text \<open>
  Inputs for the closed instances below: a chart with every position at one longitude,
  born at noon on 2000-01-01 at a place that \<open>exampleEnv\<close> geocodes to latitude 0 and
  longitude -100.46061837 (where the local sidereal time of that instant is 12 h).
\<close>

definition uniformChart :: "real \<Rightarrow> user" where
  "uniformChart x =
     \<lparr>username = ''u'', dateOfBirth = ''2000-01-01'', timeOfBirth = ''12:00'',
      placeOfBirth = ''somewhere'',
      sunPosition = x, moonPosition = x, mercuryPosition = x, venusPosition = x,
      marsPosition = x, jupiterPosition = x, saturnPosition = x, uranusPosition = x,
      neptunePosition = x, plutoPosition = x, trueNodePosition = x, chironPosition = x,
      fortunaPosition = x, vertexPosition = x, ascendantPosition = x,
      midHeavenPosition = x\<rparr>"

definition exampleEnv :: environment where
  "exampleEnv =
     \<lparr>geocode = (\<lambda>location.
         if location = ''somewhere''
         then Inr [\<lparr>latitude = 0, longitude = -100.46061837, formattedAddress = ''somewhere''\<rparr>]
         else Inr []),
      newDate = (\<lambda>s.
         if s = ''2000-01-01T12:00''
         then Some \<lparr>getFullYear = 2000, getMonth = 0, getDate = 1,
                     getHours = 12, getMinutes = 0, getSeconds = 0\<rparr>
         else None)\<rparr>"

definition exampleOverlay :: house_transpositions where
  \<comment> \<open>what \<^verbatim>\<open>calculateHouseTranspositions\<close> returns for the charts at 0 and at 30\<close>
  "exampleOverlay =
     \<lparr>transpositions =
        [\<lparr>planet = ''Sun'', house = 7, owner = ''u'', inChart = ''u''\<rparr>,
         \<lparr>planet = ''Moon'', house = 7, owner = ''u'', inChart = ''u''\<rparr>,
         \<lparr>planet = ''Venus'', house = 7, owner = ''u'', inChart = ''u''\<rparr>,
         \<lparr>planet = ''Mars'', house = 7, owner = ''u'', inChart = ''u''\<rparr>,
         \<lparr>planet = ''Jupiter'', house = 7, owner = ''u'', inChart = ''u''\<rparr>,
         \<lparr>planet = ''Saturn'', house = 7, owner = ''u'', inChart = ''u''\<rparr>],
      overlay_score = 1, harmoniousCount = 6, totalPlacements = 6\<rparr>"

section \<open>Time conversion: the Julian Day\<close>

lemma isInteger_of_int: "isInteger (real_of_int k)"
  by (simp add: isInteger_def)

lemma isInteger_iff: "isInteger x \<longleftrightarrow> x \<in> \<int>"
  unfolding isInteger_def
  by (metis Ints_of_int Ints_cases of_int_floor_cancel floor_of_int)

lemma Math_floor_div:
  "0 < d \<Longrightarrow> Math_floor (real_of_int k / real_of_int d) = real_of_int (k div d)"
  by (simp add: Math_floor_def floor_divide_of_int_eq)

text \<open>
  Claim C5. For an integer year, a month in 1..12, a day in 1..31 and an hour in [0, 24),
  \<^verbatim>\<open>swe_julday\<close> with the Gregorian calendar returns jdn + (hour - 12)/24, where jdn is
  the Gregorian Julian Day Number built from a = floor((14 - month)/12),
  y = year + 4800 - a and m = month + 12a - 3; and \<^verbatim>\<open>swe_julday(2000, 1, 1, 12.0)\<close> is
  exactly 2451545.0.
\<close>

theorem swe_julday_gregorian:
  "(1 \<le> month \<and> month \<le> 12 \<and> 1 \<le> day \<and> day \<le> 31 \<and> 0 \<le> hour \<and> hour < 24 \<longrightarrow>
      swe_julday (Num (real_of_int year)) (Num (real_of_int month)) (Num (real_of_int day))
          (Num hour) SE_GREG_CAL =
        Inr (Num (real_of_int (gregorian_jdn year month day) + (hour - 12) / 24)))
   \<and> swe_julday (Num 2000) (Num 1) (Num 1) (Num 12.0) SE_GREG_CAL = Inr (Num 2451545.0)"
proof (intro conjI impI)
  assume v: "1 \<le> month \<and> month \<le> 12 \<and> 1 \<le> day \<and> day \<le> 31 \<and> 0 \<le> hour \<and> hour < 24"
  define a where "a = (14 - month) div 12"
  define y where "y = year + 4800 - a"
  define m where "m = month + 12 * a - 3"
  have fa: "Math_floor ((14 - real_of_int month) / 12) = real_of_int a"
    using Math_floor_div [of 12 "14 - month"] by (simp add: a_def)
  have ry: "real_of_int year + 4800 - real_of_int a = real_of_int y"
    by (simp add: y_def)
  have rm: "real_of_int month + 12 * real_of_int a - 3 = real_of_int m"
    by (simp add: m_def)
  have f5: "Math_floor ((153 * real_of_int m + 2) / 5) = real_of_int ((153 * m + 2) div 5)"
    using Math_floor_div [of 5 "153 * m + 2"] by simp
  have f4: "Math_floor (real_of_int y / 4) = real_of_int (y div 4)"
    using Math_floor_div [of 4 y] by simp
  have f100: "Math_floor (real_of_int y / 100) = real_of_int (y div 100)"
    using Math_floor_div [of 100 y] by simp
  have f400: "Math_floor (real_of_int y / 400) = real_of_int (y div 400)"
    using Math_floor_div [of 400 y] by simp
  have g: "gregorian_jdn year month day =
      day + (153 * m + 2) div 5 + 365 * y + y div 4 - y div 100 + y div 400 - 32045"
    by (simp add: gregorian_jdn_def Let_def a_def y_def m_def)
  show "swe_julday (Num (real_of_int year)) (Num (real_of_int month)) (Num (real_of_int day))
          (Num hour) SE_GREG_CAL =
        Inr (Num (real_of_int (gregorian_jdn year month day) + (hour - 12) / 24))"
    unfolding swe_julday.simps Let_def fa ry rm f5 f4 f100 f400
    using v by (simp add: isInteger_of_int g)
next
  show "swe_julday (Num 2000) (Num 1) (Num 1) (Num 12.0) SE_GREG_CAL = Inr (Num 2451545.0)"
    by (simp add: swe_julday.simps isInteger_def Math_floor_def SE_GREG_CAL_def Let_def)
qed

text \<open>The instance 1985-09-15 00:24, the reference birth of the engine.\<close>

theorem swe_julday_gregorian_witness:
  "swe_julday (Num 1985) (Num 9) (Num 15) (Num (2 / 5)) SE_GREG_CAL =
     Inr (Num (real_of_int (gregorian_jdn 1985 9 15) + (2 / 5 - 12) / 24))
   \<and> gregorian_jdn 1985 9 15 = 2446324"
  using swe_julday_gregorian [of 9 15 "2 / 5" 1985]
  by (simp add: gregorian_jdn_def)

text \<open>
  For finite arguments the guard of \<^verbatim>\<open>swe_julday\<close> is the only error path of the
  Gregorian calendar: the error is raised exactly when the year, the month or the day is
  not an integer, the month is outside 1..12, the day is outside 1..31, or the hour is
  outside [0, 24). The day is checked against 1..31 whatever the month, so February 30
  and April 31 give a Julian Day.
\<close>

lemma swe_julday_finite_errors:
  "(\<exists>e. swe_julday (Num year) (Num month) (Num day) (Num hour) SE_GREG_CAL = Inl e) \<longleftrightarrow>
      (year \<notin> \<int> \<or> month \<notin> \<int> \<or> day \<notin> \<int> \<or> month < 1 \<or> 12 < month \<or> day < 1 \<or> 31 < day
        \<or> hour < 0 \<or> 24 \<le> hour)"
  by (auto simp add: swe_julday.simps isInteger_iff Let_def)

lemma swe_julday_february_30:
  "swe_julday (Num 2024) (Num 2) (Num 30) (Num 12) SE_GREG_CAL = Inr (Num 2460371)"
  by (simp add: swe_julday.simps isInteger_def Math_floor_def SE_GREG_CAL_def Let_def)

lemma swe_julday_april_31:
  "swe_julday (Num 2023) (Num 4) (Num 31) (Num 0) SE_GREG_CAL = Inr (Num (2460065 + 1 / 2))"
  by (simp add: swe_julday.simps isInteger_def Math_floor_def SE_GREG_CAL_def Let_def)

text \<open>
  Claim C10 says that \<^verbatim>\<open>swe_julday\<close> raises an error exactly when the year, the month
  or the day is not an integer, the month is outside 1..12, the day is outside 1..31, or
  the hour is outside [0, 24). The code does not: a NaN hour, which is what an omitted
  hour is in the comparisons and in the arithmetic, is in none of the ranges, makes both
  comparisons \<^verbatim>\<open>hour < 0\<close> and \<^verbatim>\<open>hour >= 24\<close> false, and \<^verbatim>\<open>swe_julday(2024, 1, 1, NaN)\<close>
  returns NaN without an error. The year, the month and the day are guarded against NaN
  by \<^verbatim>\<open>Number.isInteger\<close>, and the sibling methods \<^verbatim>\<open>swe_calc_ut\<close> and \<^verbatim>\<open>swe_houses\<close>
  guard their real arguments by \<^verbatim>\<open>Number.isFinite\<close>; the hour has neither.
\<close>

theorem swe_julday_nan_hour:
  "swe_julday (Num 2024) (Num 1) (Num 1) NaN SE_GREG_CAL = Inr NaN
   \<and> \<not> number_ge NaN 0 \<and> \<not> number_lt NaN 24"
  by (simp add: swe_julday.simps isInteger_def Math_floor_def SE_GREG_CAL_def Let_def)

section \<open>The aspect classifier\<close>

text \<open>
  Claim C7. The classifier is symmetric: \<^verbatim>\<open>findAspect(a, b)\<close> and \<^verbatim>\<open>findAspect(b, a)\<close>
  are the same result, for all longitudes.
\<close>

theorem findAspect_symmetric: "findAspect a b = findAspect b a"
  by (simp add: findAspect_def separation_def abs_minus_commute)

text \<open>
  Claim C8, as the code has it. The longitudes 10 and 70 are 60 degrees apart and
  \<^verbatim>\<open>findAspect(10, 70)\<close> is the Sextile of strength 0.8 whose \<^verbatim>\<open>orb\<close> is the string
  \<^verbatim>\<open>"0.00"\<close> that \<^verbatim>\<open>toFixed(2)\<close> makes.
\<close>

theorem findAspect_10_70:
  "separation 10 70 = 60 \<and>
   findAspect 10 70 = \<lparr>name = ''Sextile'', orb = OrbString ''0.00'', strength = 0.8\<rparr>"
  by (simp add: findAspect_def findAspect_aspects_def separation_def Let_def toFixed2_def
      decimal.simps digit_char_def)

text \<open>Claim C8 as stated fails: the \<^verbatim>\<open>orb\<close> of the result is not the number 0.\<close>

theorem findAspect_10_70_counterexample:
  "findAspect 10 70 \<noteq> \<lparr>name = ''Sextile'', orb = OrbNumber 0, strength = 0.8\<rparr>"
  by (simp add: findAspect_def findAspect_aspects_def separation_def Let_def)

section \<open>The two strength tables\<close>

text \<open>
  \<^verbatim>\<open>calculateAspectStrength\<close> scans five aspects, \<^verbatim>\<open>findAspect\<close> eight. The orbs of the
  eight do not overlap, so the first gives the strength of the second when the second
  finds one of the five, and 0 otherwise.
\<close>

lemma scan_major:
  "calculateAspectStrength_scan x calculateAspectStrength_aspects =
     majorStrength (findAspect_scan x findAspect_aspects)"
  by (simp add: calculateAspectStrength_aspects_def findAspect_aspects_def majorStrength_def
      Let_def abs_le_iff)

lemma calculateAspectStrength_major:
  "calculateAspectStrength a b = majorStrength (findAspect a b)"
  by (simp add: calculateAspectStrength_def findAspect_def scan_major)

lemma fullChart_inner_sum:
  "fullChart_inner p ys (t, c) = (t + (\<Sum>y\<leftarrow>ys. calculateAspectStrength p y), c + length ys)"
  by (induction ys arbitrary: t c) simp_all

lemma fullChart_outer_sum:
  "fullChart_outer xs ys (t, c) =
     (t + (\<Sum>x\<leftarrow>xs. \<Sum>y\<leftarrow>ys. calculateAspectStrength x y), c + length xs * length ys)"
  by (induction xs arbitrary: t c) (simp_all add: fullChart_inner_sum)

lemma length_fullChart_planets: "length (fullChart_planets u) = 16"
  by (simp add: fullChart_planets_def)

lemma calculateFullChartSynastry_sum:
  "calculateFullChartSynastry u1 u2 =
     (\<Sum>x\<leftarrow>fullChart_planets u1. \<Sum>y\<leftarrow>fullChart_planets u2. calculateAspectStrength x y) / 256"
  by (simp add: calculateFullChartSynastry_def fullChart_outer_sum length_fullChart_planets)

lemma fullChart_planets_uniform: "fullChart_planets (uniformChart x) = replicate 16 x"
  by (simp add: fullChart_planets_def uniformChart_def eval_nat_numeral)

text \<open>
  Claim C2, as the code has it. The Venus-Mars sub-score is the average, over the pairs
  (A.venus, B.mars) and (B.venus, A.mars), of the classifier's strength when the
  classifier finds a Conjunction, Sextile, Square, Trine or Opposition, and of 0 when it
  finds a Semisextile, a Sesquiquadrate, a Quincunx or nothing.
\<close>

theorem venusMars_major:
  "calculateVenusMarsSynastry A B =
     (majorStrength (findAspect (venusPosition A) (marsPosition B)) +
      majorStrength (findAspect (venusPosition B) (marsPosition A))) / 2"
  by (simp add: calculateVenusMarsSynastry_def calculateAspectStrength_major)

text \<open>
  Claim C2 as stated fails: with every position of A at 0 and of B at 30, both pairs are
  exact Semisextiles, of classifier strength 0.3, and the sub-score is 0.
\<close>

theorem venusMars_counterexample:
  "calculateVenusMarsSynastry (uniformChart 0) (uniformChart 30) \<noteq>
     (strength (findAspect (venusPosition (uniformChart 0)) (marsPosition (uniformChart 30))) +
      strength (findAspect (venusPosition (uniformChart 30)) (marsPosition (uniformChart 0)))) / 2"
  by (simp add: calculateVenusMarsSynastry_def calculateAspectStrength_def
      calculateAspectStrength_aspects_def findAspect_def findAspect_aspects_def
      separation_def uniformChart_def Let_def)

text \<open>
  Claim C3, as the code has it. The full-chart sub-score is the mean, over all
  16 x 16 = 256 pairings of a position of A with a position of B, none left out, of the
  classifier's strength when the classifier finds a Conjunction, Sextile, Square, Trine
  or Opposition, and of 0 when it finds a Semisextile, a Sesquiquadrate, a Quincunx or
  nothing.
\<close>

theorem fullChart_major:
  "calculateFullChartSynastry A B =
     (\<Sum>a\<leftarrow>fullChart_planets A. \<Sum>b\<leftarrow>fullChart_planets B. majorStrength (findAspect a b)) / 256
   \<and> length (fullChart_planets A) = 16 \<and> length (fullChart_planets B) = 16"
  by (simp add: calculateFullChartSynastry_sum calculateAspectStrength_major
      length_fullChart_planets)

text \<open>
  Claim C3 as stated fails: with every position of A at 0 and of B at 30, the mean of
  the classifier's strength over the 256 pairings is 0.3 and the sub-score is 0.
\<close>

theorem fullChart_counterexample:
  "calculateFullChartSynastry (uniformChart 0) (uniformChart 30) \<noteq>
     (\<Sum>a\<leftarrow>fullChart_planets (uniformChart 0). \<Sum>b\<leftarrow>fullChart_planets (uniformChart 30).
        strength (findAspect a b)) / 256"
proof -
  have s: "strength (findAspect 0 30) = 3 / 10"
    by (simp add: findAspect_def findAspect_aspects_def separation_def Let_def)
  have c: "calculateAspectStrength 0 30 = 0"
    by (simp add: calculateAspectStrength_def calculateAspectStrength_aspects_def
        separation_def Let_def)
  show ?thesis
    by (simp add: calculateFullChartSynastry_sum fullChart_planets_uniform
        sum_list_replicate s c)
qed

section \<open>The concrete charts\<close>

lemma lst_example: "calculateLocalSiderealTime 2451545 (- (10046061837 / 100000000)) = Inr 12"
  by (simp add: calculateLocalSiderealTime_def js_rem_def Let_def)

lemma houses_example:
  "calculateHouses (Num 2451545)
     \<lparr>lat = 0, lon = - (10046061837 / 100000000), display_name = ''somewhere''\<rparr> =
     Inr [180, 210, 240, 270, 300, 330, 0, 30, 60, 90, 120, 150]"
  by (simp add: calculateHouses_def swe_houses_def lst_example SE_HSYS_PLACIDUS_def
      SE_HSYS_KOCH_def SE_HSYS_EQUAL_def js_rem_def Let_def upt_rec)

lemma jd_example: "dateToJulianDay exampleEnv ''2000-01-01'' ''12:00'' = Inr (Num 2451545)"
  by (simp add: dateToJulianDay_def exampleEnv_def swe_julday.simps isInteger_def
      Math_floor_def SE_GREG_CAL_def Let_def)

lemma geo_example:
  "geocodeLocation exampleEnv ''somewhere'' =
     Inr \<lparr>lat = 0, lon = - (10046061837 / 100000000), display_name = ''somewhere''\<rparr>"
  by (simp add: geocodeLocation_def exampleEnv_def)

lemma house_of_0: "getPlanetHouse 0 [180, 210, 240, 270, 300, 330, 0, 30, 60, 90, 120, 150] = 7"
  by (simp add: getPlanetHouse_def getPlanetHouse_loop.simps js_index_def Let_def)

lemma overlay_example:
  "calculateHouseTranspositions exampleEnv (uniformChart 0) (uniformChart 30) =
     Inr exampleOverlay"
  by (simp add: calculateHouseTranspositions_def overlay_planets_def uniformChart_def
      geo_example jd_example houses_example house_of_0 exampleOverlay_def Let_def)

lemma example_venusMars: "calculateVenusMarsSynastry (uniformChart 0) (uniformChart 30) = 0"
  by (simp add: calculateVenusMarsSynastry_def calculateAspectStrength_def
      calculateAspectStrength_aspects_def separation_def uniformChart_def Let_def)

lemma example_fullChart: "calculateFullChartSynastry (uniformChart 0) (uniformChart 30) = 0"
proof -
  have c: "calculateAspectStrength 0 30 = 0"
    by (simp add: calculateAspectStrength_def calculateAspectStrength_aspects_def
        separation_def Let_def)
  show ?thesis
    by (simp add: calculateFullChartSynastry_sum fullChart_planets_uniform
        sum_list_replicate c)
qed

section \<open>Strengths and sub-scores lie in the unit interval\<close>

lemma taper_unit:
  fixes d ob s :: real
  assumes "0 \<le> d" "d \<le> ob" "0 < ob" "0 \<le> s" "s \<le> 1"
  shows "0 \<le> s * (1 - d / ob) \<and> s * (1 - d / ob) \<le> 1"
proof -
  have e0: "0 \<le> 1 - d / ob" using assms by simp
  have e1: "1 - d / ob \<le> 1" using assms by simp
  have "s * (1 - d / ob) \<le> 1 * 1"
    using assms e0 e1 by (intro mult_mono) simp_all
  then show ?thesis using assms e0 by simp
qed

lemma findAspect_scan_unit:
  assumes "\<forall>e \<in> set es. 0 < entry_orb e \<and> 0 \<le> entry_strength e \<and> entry_strength e \<le> 1"
  shows "0 \<le> strength (findAspect_scan x es) \<and> strength (findAspect_scan x es) \<le> 1"
  using assms
proof (induction es)
  case Nil
  then show ?case by simp
next
  case (Cons e es)
  show ?case
  proof (cases "\<bar>x - entry_angle e\<bar> \<le> entry_orb e")
    case True
    have "0 \<le> entry_strength e * (1 - \<bar>x - entry_angle e\<bar> / entry_orb e) \<and>
          entry_strength e * (1 - \<bar>x - entry_angle e\<bar> / entry_orb e) \<le> 1"
      using True Cons.prems by (intro taper_unit) simp_all
    with True show ?thesis by (simp add: Let_def)
  next
    case False
    with Cons show ?thesis by (simp add: Let_def)
  qed
qed

lemma findAspect_unit:
  "0 \<le> strength (findAspect a b) \<and> strength (findAspect a b) \<le> 1"
  unfolding findAspect_def
  by (rule findAspect_scan_unit) (simp add: findAspect_aspects_def)

lemma calculateAspectStrength_scan_unit:
  assumes "\<forall>(a, ob, s) \<in> set es. 0 < ob \<and> 0 \<le> s \<and> s \<le> 1"
  shows "0 \<le> calculateAspectStrength_scan x es \<and> calculateAspectStrength_scan x es \<le> 1"
  using assms
proof (induction x es rule: calculateAspectStrength_scan.induct)
  case (1 angle)
  then show ?case by simp
next
  case (2 angle a ob s rest)
  show ?case
  proof (cases "\<bar>angle - a\<bar> \<le> ob")
    case True
    have "0 \<le> s * (1 - \<bar>angle - a\<bar> / ob) \<and> s * (1 - \<bar>angle - a\<bar> / ob) \<le> 1"
      using True "2.prems" by (intro taper_unit) simp_all
    with True show ?thesis by (simp add: Let_def)
  next
    case False
    with 2 show ?thesis by (simp add: Let_def)
  qed
qed

lemma calculateAspectStrength_unit:
  "0 \<le> calculateAspectStrength a b \<and> calculateAspectStrength a b \<le> 1"
  unfolding calculateAspectStrength_def
  by (rule calculateAspectStrength_scan_unit) (simp add: calculateAspectStrength_aspects_def)

lemma sum_list_unit:
  fixes f :: "'a \<Rightarrow> real"
  assumes "\<And>x. 0 \<le> f x \<and> f x \<le> 1"
  shows "0 \<le> (\<Sum>x\<leftarrow>xs. f x) \<and> (\<Sum>x\<leftarrow>xs. f x) \<le> real (length xs)"
proof (induction xs)
  case Nil
  show ?case by simp
next
  case (Cons x xs)
  with assms [of x] show ?case by simp
qed

lemma double_sum_unit:
  fixes f :: "'a \<Rightarrow> 'b \<Rightarrow> real"
  assumes "\<And>x y. 0 \<le> f x y \<and> f x y \<le> 1"
  shows "0 \<le> (\<Sum>x\<leftarrow>xs. \<Sum>y\<leftarrow>ys. f x y) \<and>
         (\<Sum>x\<leftarrow>xs. \<Sum>y\<leftarrow>ys. f x y) \<le> real (length xs * length ys)"
proof (induction xs)
  case Nil
  show ?case by simp
next
  case (Cons x xs)
  have "0 \<le> (\<Sum>y\<leftarrow>ys. f x y) \<and> (\<Sum>y\<leftarrow>ys. f x y) \<le> real (length ys)"
    using assms by (rule sum_list_unit)
  with Cons show ?case by simp
qed

lemma venusMars_unit:
  "0 \<le> calculateVenusMarsSynastry A B \<and> calculateVenusMarsSynastry A B \<le> 1"
  using calculateAspectStrength_unit [of "venusPosition A" "marsPosition B"]
    calculateAspectStrength_unit [of "venusPosition B" "marsPosition A"]
  by (simp add: calculateVenusMarsSynastry_def Let_def)

lemma fullChart_unit:
  "0 \<le> calculateFullChartSynastry A B \<and> calculateFullChartSynastry A B \<le> 1"
  using double_sum_unit [where f = calculateAspectStrength and xs = "fullChart_planets A"
      and ys = "fullChart_planets B", OF calculateAspectStrength_unit]
  by (simp add: calculateFullChartSynastry_sum length_fullChart_planets)

subsection \<open>The synastry-aspect sub-score\<close>

lemma synastry_inner_sum:
  "length (fst (synastry_inner p ys acc)) = length (fst acc) + length ys \<and>
   snd (synastry_inner p ys acc) =
     snd acc + (\<Sum>y\<leftarrow>ys. strength (findAspect (snd p) (snd y)))"
proof (induction ys arbitrary: acc)
  case Nil
  show ?case by simp
next
  case (Cons y ys)
  obtain asps t where acc: "acc = (asps, t)" by (cases acc)
  show ?case
    unfolding acc by (simp add: Let_def Cons.IH)
qed

lemma synastry_outer_sum:
  "length (fst (synastry_outer xs ys acc)) = length (fst acc) + length xs * length ys \<and>
   snd (synastry_outer xs ys acc) =
     snd acc + (\<Sum>x\<leftarrow>xs. \<Sum>y\<leftarrow>ys. strength (findAspect (snd x) (snd y)))"
proof (induction xs arbitrary: acc)
  case Nil
  show ?case by simp
next
  case (Cons x xs)
  show ?case
    by (simp add: Cons.IH synastry_inner_sum)
qed

lemma length_synastry_planets: "length (synastry_planets u) = 12"
  by (simp add: synastry_planets_def)

lemma calculateSynastryAspects_score:
  "score (calculateSynastryAspects A B) =
     (\<Sum>x\<leftarrow>synastry_planets A. \<Sum>y\<leftarrow>synastry_planets B.
        strength (findAspect (snd x) (snd y))) / 144
   \<and> count (calculateSynastryAspects A B) = 144"
proof -
  obtain asps t where o:
    "synastry_outer (synastry_planets A) (synastry_planets B) ([], 0) = (asps, t)"
    by (cases "synastry_outer (synastry_planets A) (synastry_planets B) ([], 0)")
  from synastry_outer_sum [of "synastry_planets A" "synastry_planets B" "([], 0)"]
  have l: "length asps = 144"
    and t: "t = (\<Sum>x\<leftarrow>synastry_planets A. \<Sum>y\<leftarrow>synastry_planets B.
        strength (findAspect (snd x) (snd y)))"
    by (simp_all add: o length_synastry_planets)
  from l have ne: "asps \<noteq> []" by auto
  show ?thesis
    by (simp add: calculateSynastryAspects_def o l t ne)
qed

lemma synastryAspects_unit:
  "0 \<le> score (calculateSynastryAspects A B) \<and> score (calculateSynastryAspects A B) \<le> 1"
  using double_sum_unit [where f = "\<lambda>x y. strength (findAspect (snd x) (snd y))"
      and xs = "synastry_planets A" and ys = "synastry_planets B", OF findAspect_unit]
  by (simp add: calculateSynastryAspects_score length_synastry_planets)

lemma example_synastry:
  "score (calculateSynastryAspects (uniformChart 0) (uniformChart 30)) = 3 / 10"
proof -
  have s: "strength (findAspect 0 30) = 3 / 10"
    by (simp add: findAspect_def findAspect_aspects_def separation_def Let_def)
  have p: "map snd (synastry_planets (uniformChart x)) = replicate 12 x" for x
    by (simp add: synastry_planets_def uniformChart_def eval_nat_numeral)
  have "(\<Sum>x\<leftarrow>synastry_planets (uniformChart 0). \<Sum>y\<leftarrow>synastry_planets (uniformChart 30).
           strength (findAspect (snd x) (snd y))) =
        (\<Sum>x\<leftarrow>map snd (synastry_planets (uniformChart 0)).
           \<Sum>y\<leftarrow>map snd (synastry_planets (uniformChart 30)). strength (findAspect x y))"
    by (simp add: comp_def)
  also have "\<dots> = 144 * (3 / 10)"
    unfolding p by (simp add: sum_list_replicate s)
  finally show ?thesis
    by (simp add: calculateSynastryAspects_score)
qed

section \<open>The house-overlay sub-score\<close>

lemma overlay_loop_count:
  "snd (overlay_loop u1 u2 hs ps acc) =
     snd acc + length (filter (\<lambda>p. getPlanetHouse p hs \<in> {1, 5, 7, 9, 11}) (map snd ps))"
proof (induction ps arbitrary: acc)
  case Nil
  show ?case by simp
next
  case (Cons p ps)
  obtain ts h where acc: "acc = (ts, h)" by (cases acc)
  show ?case
    unfolding acc by (simp add: Let_def Cons.IH)
qed

lemma overlay_positions:
  "map snd (overlay_planets u) =
     [sunPosition u, moonPosition u, venusPosition u, marsPosition u, jupiterPosition u,
      saturnPosition u]"
  by (simp add: overlay_planets_def)

text \<open>
  \<^verbatim>\<open>calculateHouseTranspositions\<close> geocodes the place of birth of the second chart,
  converts its date and time, computes the houses, and only then counts.
\<close>

lemma calculateHouseTranspositions_cases:
  "calculateHouseTranspositions env A B =
     (case geocodeLocation env (placeOfBirth B) of
        Inl e \<Rightarrow> Inl e
      | Inr c \<Rightarrow>
          (case dateToJulianDay env (dateOfBirth B) (timeOfBirth B) of
             Inl e \<Rightarrow> Inl e
           | Inr jd \<Rightarrow>
               (case calculateHouses jd c of
                  Inl e \<Rightarrow> Inl e
                | Inr hs \<Rightarrow>
                    Inr \<lparr>transpositions = fst (overlay_loop A B hs (overlay_planets A) ([], 0)),
                         overlay_score =
                           real (length (filter (\<lambda>p. getPlanetHouse p hs \<in> {1, 5, 7, 9, 11})
                             [sunPosition A, moonPosition A, venusPosition A, marsPosition A,
                              jupiterPosition A, saturnPosition A])) / 6,
                         harmoniousCount =
                           length (filter (\<lambda>p. getPlanetHouse p hs \<in> {1, 5, 7, 9, 11})
                             [sunPosition A, moonPosition A, venusPosition A, marsPosition A,
                              jupiterPosition A, saturnPosition A]),
                         totalPlacements = 6\<rparr>)))"
proof -
  have len: "length (overlay_planets A) = 6" by (simp add: overlay_planets_def)
  have cnt: "snd (overlay_loop A B hs (overlay_planets A) ([], 0)) =
      length (filter (\<lambda>p. getPlanetHouse p hs \<in> {1, 5, 7, 9, 11})
        [sunPosition A, moonPosition A, venusPosition A, marsPosition A,
         jupiterPosition A, saturnPosition A])" for hs
    using overlay_loop_count [of A B hs "overlay_planets A" "([], 0)"]
    by (simp add: overlay_positions)
  have res: "(case overlay_loop A B hs (overlay_planets A) ([], 0) of
                (ts, harmonious) \<Rightarrow> f ts harmonious) =
             f (fst (overlay_loop A B hs (overlay_planets A) ([], 0)))
               (snd (overlay_loop A B hs (overlay_planets A) ([], 0)))" for hs
    and f :: "transposition list \<Rightarrow> nat \<Rightarrow> error + house_transpositions"
    by (simp add: case_prod_beta)
  show ?thesis
    unfolding calculateHouseTranspositions_def Let_def len res cnt
    by (simp split: sum.splits)
qed

lemma calculateHouseTranspositions_Inr:
  assumes "calculateHouseTranspositions env A B = Inr r"
  shows "\<exists>c jd hs. geocodeLocation env (placeOfBirth B) = Inr c \<and>
           dateToJulianDay env (dateOfBirth B) (timeOfBirth B) = Inr jd \<and>
           calculateHouses jd c = Inr hs \<and>
           overlay_score r =
             real (length (filter (\<lambda>p. getPlanetHouse p hs \<in> {1, 5, 7, 9, 11})
               [sunPosition A, moonPosition A, venusPosition A, marsPosition A,
                jupiterPosition A, saturnPosition A])) / 6"
proof -
  note eq = assms [unfolded calculateHouseTranspositions_cases]
  from eq obtain c where c: "geocodeLocation env (placeOfBirth B) = Inr c"
    by (cases "geocodeLocation env (placeOfBirth B)") simp_all
  from eq c obtain jd where jd: "dateToJulianDay env (dateOfBirth B) (timeOfBirth B) = Inr jd"
    by (cases "dateToJulianDay env (dateOfBirth B) (timeOfBirth B)") simp_all
  from eq c jd obtain hs where hs: "calculateHouses jd c = Inr hs"
    by (cases "calculateHouses jd c") simp_all
  from eq have "Inr \<lparr>transpositions = fst (overlay_loop A B hs (overlay_planets A) ([], 0)),
      overlay_score =
        real (length (filter (\<lambda>p. getPlanetHouse p hs \<in> {1, 5, 7, 9, 11})
          [sunPosition A, moonPosition A, venusPosition A, marsPosition A,
           jupiterPosition A, saturnPosition A])) / 6,
      harmoniousCount =
        length (filter (\<lambda>p. getPlanetHouse p hs \<in> {1, 5, 7, 9, 11})
          [sunPosition A, moonPosition A, venusPosition A, marsPosition A,
           jupiterPosition A, saturnPosition A]),
      totalPlacements = 6\<rparr> = (Inr r :: error + house_transpositions)"
    unfolding c jd hs sum.case .
  then have "overlay_score r =
      real (length (filter (\<lambda>p. getPlanetHouse p hs \<in> {1, 5, 7, 9, 11})
        [sunPosition A, moonPosition A, venusPosition A, marsPosition A,
         jupiterPosition A, saturnPosition A])) / 6"
    unfolding sum.inject by (metis house_transpositions.select_convs(2))
  with c jd hs show ?thesis by blast
qed

lemma overlay_unit:
  assumes "calculateHouseTranspositions env A B = Inr r"
  shows "0 \<le> overlay_score r \<and> overlay_score r \<le> 1"
proof -
  from calculateHouseTranspositions_Inr [OF assms] obtain hs where
    s: "overlay_score r =
             real (length (filter (\<lambda>p. getPlanetHouse p hs \<in> {1, 5, 7, 9, 11})
               [sunPosition A, moonPosition A, venusPosition A, marsPosition A,
                jupiterPosition A, saturnPosition A])) / 6"
    by blast
  have "length (filter (\<lambda>p. getPlanetHouse p hs \<in> {1, 5, 7, 9, 11})
               [sunPosition A, moonPosition A, venusPosition A, marsPosition A,
                jupiterPosition A, saturnPosition A]) \<le> 6"
    using length_filter_le [of "\<lambda>p. getPlanetHouse p hs \<in> {1, 5, 7, 9, 11}"
        "[sunPosition A, moonPosition A, venusPosition A, marsPosition A,
                jupiterPosition A, saturnPosition A]"]
    by simp
  with s show ?thesis by simp
qed

text \<open>
  Claim C4. When \<^verbatim>\<open>calculateHouseTranspositions\<close> returns, its score is the fraction of
  the six bodies Sun, Moon, Venus, Mars, Jupiter and Saturn of chart A whose house in
  chart B is one of 1, 5, 7, 9, 11; the houses of chart B are the cusps that
  \<^verbatim>\<open>swe_houses\<close> computes from B's date and time and the coordinates geocoded from B's
  place of birth. Nothing stored in chart B but its birth data is read.
\<close>

theorem houseOverlay_fraction:
  assumes "calculateHouseTranspositions env A B = Inr r"
  shows "\<exists>c jd hr. geocodeLocation env (placeOfBirth B) = Inr c \<and>
           dateToJulianDay env (dateOfBirth B) (timeOfBirth B) = Inr jd \<and>
           swe_houses jd (lat c) (lon c) SE_HSYS_PLACIDUS = Inr hr \<and>
           overlay_score r =
             real (length (filter (\<lambda>p. getPlanetHouse p (houses hr) \<in> {1, 5, 7, 9, 11})
               [sunPosition A, moonPosition A, venusPosition A, marsPosition A,
                jupiterPosition A, saturnPosition A])) / 6"
proof -
  from calculateHouseTranspositions_Inr [OF assms] obtain c jd hs where
    c: "geocodeLocation env (placeOfBirth B) = Inr c" and
    jd: "dateToJulianDay env (dateOfBirth B) (timeOfBirth B) = Inr jd" and
    hs: "calculateHouses jd c = Inr hs" and
    s: "overlay_score r =
          real (length (filter (\<lambda>p. getPlanetHouse p hs \<in> {1, 5, 7, 9, 11})
            [sunPosition A, moonPosition A, venusPosition A, marsPosition A,
             jupiterPosition A, saturnPosition A])) / 6"
    by blast
  from hs obtain hr where hr: "swe_houses jd (lat c) (lon c) SE_HSYS_PLACIDUS = Inr hr"
    and hh: "hs = houses hr"
    by (cases "swe_houses jd (lat c) (lon c) SE_HSYS_PLACIDUS")
      (simp_all add: calculateHouses_def)
  from c jd hr s [unfolded hh] show ?thesis by blast
qed

text \<open>The charts at 0 and at 30: all six bodies of A fall in house 7 of B.\<close>

theorem houseOverlay_fraction_witness:
  "calculateHouseTranspositions exampleEnv (uniformChart 0) (uniformChart 30) = Inr exampleOverlay
   \<and> (\<exists>c jd hr. geocodeLocation exampleEnv (placeOfBirth (uniformChart 30)) = Inr c \<and>
      dateToJulianDay exampleEnv (dateOfBirth (uniformChart 30)) (timeOfBirth (uniformChart 30))
        = Inr jd \<and>
      swe_houses jd (lat c) (lon c) SE_HSYS_PLACIDUS = Inr hr \<and>
      overlay_score exampleOverlay =
        real (length (filter (\<lambda>p. getPlanetHouse p (houses hr) \<in> {1, 5, 7, 9, 11})
          [sunPosition (uniformChart 0), moonPosition (uniformChart 0),
           venusPosition (uniformChart 0), marsPosition (uniformChart 0),
           jupiterPosition (uniformChart 0), saturnPosition (uniformChart 0)])) / 6)"
  using overlay_example houseOverlay_fraction [OF overlay_example] by (rule conjI)

section \<open>The combined score\<close>

lemma calculateCompatibility_Inr:
  assumes "calculateCompatibility env A B = Inr r"
  shows "calculateHouseTranspositions env A B = Inr (houseTranspositions r) \<and>
         venusMarsSynastry r = calculateVenusMarsSynastry A B \<and>
         fullChartSynastry r = calculateFullChartSynastry A B \<and>
         synastryAspects r = calculateSynastryAspects A B \<and>
         compatibilityScore r =
           calculateVenusMarsSynastry A B * 0.4 + calculateFullChartSynastry A B * 0.3 +
           score (calculateSynastryAspects A B) * 0.2 +
           overlay_score (houseTranspositions r) * 0.1"
  using assms
  by (auto simp: calculateCompatibility_def Let_def split: sum.splits)

lemma calculateCompatibility_returns:
  assumes "calculateHouseTranspositions env A B = Inr ht"
  shows "\<exists>r. calculateCompatibility env A B = Inr r"
  using assms by (simp add: calculateCompatibility_def Let_def)

lemma compat_example_returns:
  "\<exists>r. calculateCompatibility exampleEnv (uniformChart 0) (uniformChart 30) = Inr r"
  using overlay_example by (rule calculateCompatibility_returns)

text \<open>
  Claim C1. The combined score that \<^verbatim>\<open>calculateCompatibility\<close> returns is 0.4 times the
  Venus-Mars sub-score plus 0.3 times the full-chart sub-score plus 0.2 times the
  synastry-aspect sub-score plus 0.1 times the house-overlay sub-score, these being the
  values of the four sub-score functions on the same two charts; and the four weights sum
  to 1.0.
\<close>

theorem compatibility_weighted:
  assumes "calculateCompatibility env A B = Inr r"
  shows "compatibilityScore r =
           0.4 * calculateVenusMarsSynastry A B + 0.3 * calculateFullChartSynastry A B +
           0.2 * score (calculateSynastryAspects A B) +
           0.1 * overlay_score (houseTranspositions r)
         \<and> calculateHouseTranspositions env A B = Inr (houseTranspositions r)
         \<and> venusMarsSynastry r = calculateVenusMarsSynastry A B
         \<and> fullChartSynastry r = calculateFullChartSynastry A B
         \<and> synastryAspects r = calculateSynastryAspects A B
         \<and> (0.4 + 0.3 + 0.2 + 0.1 :: real) = 1.0"
  using calculateCompatibility_Inr [OF assms] by simp

text \<open>
  The charts at 0 and at 30: the sub-scores are 0, 0, 0.3 and 1, the combined score 0.16.
\<close>

theorem compatibility_weighted_witness:
  "\<exists>r. calculateCompatibility exampleEnv (uniformChart 0) (uniformChart 30) = Inr r \<and>
       compatibilityScore r = 0.4 * 0 + 0.3 * 0 + 0.2 * 0.3 + 0.1 * 1"
proof -
  obtain r where r: "calculateCompatibility exampleEnv (uniformChart 0) (uniformChart 30) = Inr r"
    using compat_example_returns by blast
  note w = compatibility_weighted [OF r]
  from w overlay_example have "houseTranspositions r = exampleOverlay"
    by simp
  then have o: "overlay_score (houseTranspositions r) = 1"
    by (simp add: exampleOverlay_def)
  from w have "compatibilityScore r = 0.4 * 0 + 0.3 * 0 + 0.2 * 0.3 + 0.1 * 1"
    by (simp add: example_venusMars example_fullChart example_synastry o)
  with r show ?thesis by blast
qed

text \<open>
  Claim C9. For all longitudes (in particular those in [0, 360)), the strength that
  \<^verbatim>\<open>findAspect\<close> returns and the strength that \<^verbatim>\<open>calculateAspectStrength\<close> returns lie
  in [0, 1]; so do the Venus-Mars, full-chart and synastry-aspect sub-scores, the
  house-overlay sub-score and the combined score whenever they are returned, with no
  assumption on the sub-scores.
\<close>

theorem scores_in_unit_interval:
  "0 \<le> strength (findAspect a b) \<and> strength (findAspect a b) \<le> 1 \<and>
   0 \<le> calculateAspectStrength a b \<and> calculateAspectStrength a b \<le> 1 \<and>
   0 \<le> calculateVenusMarsSynastry A B \<and> calculateVenusMarsSynastry A B \<le> 1 \<and>
   0 \<le> calculateFullChartSynastry A B \<and> calculateFullChartSynastry A B \<le> 1 \<and>
   0 \<le> score (calculateSynastryAspects A B) \<and> score (calculateSynastryAspects A B) \<le> 1 \<and>
   (\<forall>h. calculateHouseTranspositions env A B = Inr h \<longrightarrow>
        0 \<le> overlay_score h \<and> overlay_score h \<le> 1) \<and>
   (\<forall>r. calculateCompatibility env A B = Inr r \<longrightarrow>
        0 \<le> compatibilityScore r \<and> compatibilityScore r \<le> 1)"
proof -
  have c: "0 \<le> compatibilityScore r \<and> compatibilityScore r \<le> 1"
    if r: "calculateCompatibility env A B = Inr r" for r
  proof -
    note e = calculateCompatibility_Inr [OF r]
    from e have h: "calculateHouseTranspositions env A B = Inr (houseTranspositions r)"
      by blast
    from e have s: "compatibilityScore r =
           calculateVenusMarsSynastry A B * 0.4 + calculateFullChartSynastry A B * 0.3 +
           score (calculateSynastryAspects A B) * 0.2 +
           overlay_score (houseTranspositions r) * 0.1"
      by blast
    show ?thesis
      unfolding s
      using venusMars_unit [of A B] fullChart_unit [of A B] synastryAspects_unit [of A B]
        overlay_unit [OF h]
      by linarith
  qed
  show ?thesis
    using findAspect_unit [of a b] calculateAspectStrength_unit [of a b] venusMars_unit [of A B]
      fullChart_unit [of A B] synastryAspects_unit [of A B] overlay_unit [of env A B] c
    by blast
qed

text \<open>The charts at 0 and at 30 do return an overlay and a combined score.\<close>

theorem scores_in_unit_interval_witness:
  "\<exists>h r. calculateHouseTranspositions exampleEnv (uniformChart 0) (uniformChart 30) = Inr h \<and>
     calculateCompatibility exampleEnv (uniformChart 0) (uniformChart 30) = Inr r \<and>
     0 \<le> overlay_score h \<and> overlay_score h \<le> 1 \<and>
     0 \<le> compatibilityScore r \<and> compatibilityScore r \<le> 1"
proof -
  obtain r where r: "calculateCompatibility exampleEnv (uniformChart 0) (uniformChart 30) = Inr r"
    using compat_example_returns by blast
  from scores_in_unit_interval [of 0 30 "uniformChart 0" "uniformChart 30" exampleEnv]
    overlay_example r
  show ?thesis by blast
qed

section \<open>The houses partition the circle\<close>

lemma js_rem_nonneg:
  assumes "0 \<le> x" "0 < y"
  shows "0 \<le> js_rem x y \<and> js_rem x y < y"
proof -
  have q: "0 \<le> x / y" using assms by simp
  have l: "real_of_int \<lfloor>x / y\<rfloor> * y \<le> x" using assms by (intro floor_divide_lower)
  have u: "x < (real_of_int \<lfloor>x / y\<rfloor> + 1) * y" using assms by (intro floor_divide_upper)
  from l u show ?thesis
    by (simp add: js_rem_def q algebra_simps)
qed

lemma js_rem_range:
  assumes "0 < y"
  shows "- y < js_rem x y \<and> js_rem x y < y"
proof (cases "0 \<le> x / y")
  case True
  with assms have "0 \<le> x" by (simp add: zero_le_divide_iff)
  from js_rem_nonneg [OF this assms] assms show ?thesis by simp
next
  case False
  with assms have n: "x < 0" by (simp add: zero_le_divide_iff not_le)
  have l: "(real_of_int \<lceil>x / y\<rceil> - 1) * y < x" using assms by (intro ceiling_divide_lower)
  have u: "x \<le> real_of_int \<lceil>x / y\<rceil> * y" using assms by (intro ceiling_divide_upper)
  from l u assms show ?thesis
    by (simp add: js_rem_def False algebra_simps)
qed

lemma js_rem_below:
  assumes "0 \<le> x" "x < y"
  shows "js_rem x y = x"
proof -
  have "0 \<le> x / y" "x / y < 1" using assms by simp_all
  then have "\<lfloor>x / y\<rfloor> = 0" by (simp add: floor_eq_iff)
  with \<open>0 \<le> x / y\<close> show ?thesis by (simp add: js_rem_def)
qed

lemma js_rem_once:
  assumes "y \<le> x" "x < 2 * y" "0 < y"
  shows "js_rem x y = x - y"
proof -
  have "1 \<le> x / y" "x / y < 2" using assms by (simp_all add: pos_le_divide_eq pos_divide_less_eq)
  then have "\<lfloor>x / y\<rfloor> = 1" by (simp add: floor_eq_iff)
  moreover have "0 \<le> x / y" using \<open>1 \<le> x / y\<close> by simp
  ultimately show ?thesis by (simp add: js_rem_def)
qed

lemma lst_range:
  assumes "calculateLocalSiderealTime jd l = Inr lst"
  shows "0 \<le> lst \<and> lst < 24"
proof -
  define t where "t = (jd - 2451545.0) / 36525.0"
  define v where "v = (280.46061837 + 360.98564736629 * (jd - 2451545.0) + 0.000387933 * t * t + l) / 15.0"
  from assms have e: "lst = js_rem (js_rem v 24 + 24) 24"
    by (auto simp: calculateLocalSiderealTime_def Let_def v_def t_def split: if_splits)
  have "- 24 < js_rem v 24" using js_rem_range [of 24 v] by simp
  then have "0 \<le> js_rem v 24 + 24" by simp
  from js_rem_nonneg [OF this, of 24] show ?thesis by (simp add: e)
qed

lemma swe_houses_cusps:
  assumes "swe_houses jd la lo hsys = Inr r"
  shows "\<exists>b. 0 \<le> b \<and> b < 360 \<and> houses r = map (\<lambda>i. js_rem (b + real i * 30) 360) [0..<12]"
proof -
  from assms obtain t lst where l: "calculateLocalSiderealTime t lo = Inr lst"
    and h: "houses r = map (\<lambda>i. js_rem (lst * 15 + real i * 30) 360) [0..<12]"
    by (auto simp: swe_houses_def Let_def split: if_splits sum.splits js_number.splits)
  from lst_range [OF l] have "0 \<le> lst * 15 \<and> lst * 15 < 360" by simp
  with h show ?thesis by blast
qed

lemma cusp_value:
  assumes "0 \<le> b" "b < 360" "i \<le> 12"
  shows "js_rem (b + real i * 30) 360 =
           (if b + real i * 30 < 360 then b + real i * 30 else b + real i * 30 - 360)"
proof (cases "b + real i * 30 < 360")
  case True
  with assms show ?thesis by (simp add: js_rem_below)
next
  case False
  have "real i \<le> 12" using assms by simp
  with assms have "b + real i * 30 < 2 * 360" by simp
  with False show ?thesis by (simp add: js_rem_once)
qed

lemma inArc_cusps:
  assumes b: "0 \<le> b" "b < 360" and p: "0 \<le> p" "p < 360" and i: "i < 12"
    and cs: "cs = map (\<lambda>i. js_rem (b + real i * 30) 360) [0..<12]"
  shows "inArc p cs i \<longleftrightarrow>
           (b + real i * 30 \<le> p \<and> p < b + real i * 30 + 30) \<or>
           (b + real i * 30 \<le> p + 360 \<and> p + 360 < b + real i * 30 + 30)"
proof -
  have ci: "cs ! i = (if b + real i * 30 < 360 then b + real i * 30 else b + real i * 30 - 360)"
    using i b by (simp add: cs cusp_value)
  have ri: "real i \<le> 11" using i by simp
  show ?thesis
  proof (cases "i = 11")
    case True
    have c0: "cs ! ((i + 1) mod 12) = b"
      using b by (simp add: True cs js_rem_below)
    show ?thesis
      unfolding inArc_def Let_def c0 ci using b p by (simp add: True) linarith
  next
    case False
    with i have i1: "i + 1 < 12" by simp
    then have m: "(i + 1) mod 12 = i + 1" by simp
    have cn: "cs ! (i + 1) = (if b + real i * 30 + 30 < 360 then b + real i * 30 + 30
                               else b + real i * 30 + 30 - 360)"
      using i1 b cusp_value [of b "i + 1"] by (simp add: cs algebra_simps)
    show ?thesis
      unfolding inArc_def Let_def m cn ci using b p ri
      by (auto split: if_splits)
  qed
qed

lemma arc_exists:
  assumes b: "0 \<le> b" "b < 360" and p: "0 \<le> p" "p < 360"
  shows "\<exists>i<12. (b + real i * 30 \<le> p \<and> p < b + real i * 30 + 30) \<or>
           (b + real i * 30 \<le> p + 360 \<and> p + 360 < b + real i * 30 + 30)"
proof -
  define d where "d = (if b \<le> p then p - b else p + 360 - b)"
  have d: "0 \<le> d" "d < 360" using b p by (auto simp: d_def)
  define i where "i = nat \<lfloor>d / 30\<rfloor>"
  have f0: "0 \<le> \<lfloor>d / 30\<rfloor>" using d by simp
  have ri: "real i = real_of_int \<lfloor>d / 30\<rfloor>" using f0 by (simp add: i_def)
  have lo: "real i * 30 \<le> d" using floor_divide_lower [of 30 d] by (simp add: ri)
  have up: "d < real i * 30 + 30" using floor_divide_upper [of 30 d] by (simp add: ri algebra_simps)
  have "real i * 30 < 360" using lo d by simp
  then have "real i < 12" by simp
  then have i12: "i < 12" by simp
  have "(b + real i * 30 \<le> p \<and> p < b + real i * 30 + 30) \<or>
           (b + real i * 30 \<le> p + 360 \<and> p + 360 < b + real i * 30 + 30)"
    using lo up by (auto simp: d_def split: if_splits)
  with i12 show ?thesis by blast
qed

lemma arc_unique:
  assumes b: "0 \<le> b" "b < 360" and p: "0 \<le> p" "p < 360"
    and i: "i < 12" and j: "j < 12"
    and ai: "(b + real i * 30 \<le> p \<and> p < b + real i * 30 + 30) \<or>
           (b + real i * 30 \<le> p + 360 \<and> p + 360 < b + real i * 30 + 30)"
    and aj: "(b + real j * 30 \<le> p \<and> p < b + real j * 30 + 30) \<or>
           (b + real j * 30 \<le> p + 360 \<and> p + 360 < b + real j * 30 + 30)"
  shows "i = j"
proof -
  have ri: "real i \<le> 11" and rj: "real j \<le> 11" using i j by simp_all
  from ai aj ri rj have "real i < real j + 1 \<and> real j < real i + 1"
    by linarith
  then have "i < j + 1 \<and> j < i + 1"
    by (metis of_nat_less_iff of_nat_add of_nat_1)
  then show ?thesis by simp
qed

lemma getPlanetHouse_loop_step:
  assumes "length hs = 12" "h < 12"
  shows "getPlanetHouse_loop p hs h =
           (if inArc p hs h then h + 1 else getPlanetHouse_loop p hs (h + 1))"
proof -
  have n: "(if h = 11 then 0 else h + 1) = (h + 1) mod 12"
    using assms by auto
  have m: "(h + 1) mod 12 < 12" by simp
  show ?thesis
    using assms m
    by (subst getPlanetHouse_loop.simps)
      (auto simp add: n js_index_def Let_def inArc_def not_le simp del: One_nat_def)
qed

lemma getPlanetHouse_loop_first:
  assumes "length hs = 12" "k < 12" "inArc p hs k"
    and "\<forall>j. h \<le> j \<and> j < k \<longrightarrow> \<not> inArc p hs j" and "h \<le> k"
  shows "getPlanetHouse_loop p hs h = k + 1"
  using assms(4,5)
proof (induction "k - h" arbitrary: h)
  case 0
  then have "h = k" by simp
  with assms show ?case by (simp add: getPlanetHouse_loop_step)
next
  case (Suc n)
  then have lt: "h < k" by simp
  with Suc.prems have no: "\<not> inArc p hs h" by simp
  have "getPlanetHouse_loop p hs (h + 1) = k + 1"
    using Suc.hyps Suc.prems lt by (intro Suc.hyps(1)) auto
  with no lt assms(1,2) show ?case by (simp add: getPlanetHouse_loop_step)
qed

text \<open>
  Claim C6. For every longitude p in [0, 360) and every cusp sequence that
  \<^verbatim>\<open>swe_houses\<close> returns, the sequence has 12 cusps, \<^verbatim>\<open>getPlanetHouse\<close> returns a house
  in 1..12, p lies in the arc of that house (no gap), and p lies in the arc of no other
  house (no overlap): the 12 arcs partition [0, 360).
\<close>

theorem houses_partition:
  assumes "swe_houses jd la lo hsys = Inr r" and "0 \<le> p" and "p < 360"
  shows "length (houses r) = 12 \<and>
         1 \<le> getPlanetHouse p (houses r) \<and> getPlanetHouse p (houses r) \<le> 12 \<and>
         inArc p (houses r) (getPlanetHouse p (houses r) - 1) \<and>
         (\<forall>i<12. inArc p (houses r) i \<longrightarrow> i = getPlanetHouse p (houses r) - 1)"
proof -
  from swe_houses_cusps [OF assms(1)] obtain b where b: "0 \<le> b" "b < 360"
    and cs: "houses r = map (\<lambda>i. js_rem (b + real i * 30) 360) [0..<12]"
    by blast
  have len: "length (houses r) = 12" by (simp add: cs)
  note iff = inArc_cusps [OF b assms(2,3) _ cs]
  from arc_exists [OF b assms(2,3)] obtain k where k: "k < 12" and ak: "inArc p (houses r) k"
    using iff by blast
  have uniq: "i = k" if "i < 12" "inArc p (houses r) i" for i
    using arc_unique [OF b assms(2,3) that(1) k] iff [OF that(1)] iff [OF k] that(2) ak
    by blast
  have "\<forall>j. 0 \<le> j \<and> j < k \<longrightarrow> \<not> inArc p (houses r) j"
  proof (intro allI impI notI)
    fix j
    assume j: "0 \<le> j \<and> j < k" and a: "inArc p (houses r) j"
    from j k have "j < 12" by simp
    from uniq [OF this a] j show False by simp
  qed
  from getPlanetHouse_loop_first [OF len k ak this]
  have g: "getPlanetHouse p (houses r) = k + 1" by (simp add: getPlanetHouse_def)
  have u: "\<forall>i<12. inArc p (houses r) i \<longrightarrow> i = k"
    using uniq by blast
  show ?thesis
    unfolding g add_diff_cancel_right'
  proof (intro conjI)
    show "length (houses r) = 12" by (rule len)
    show "1 \<le> k + 1" by simp
    show "k + 1 \<le> 12" using k by simp
    show "inArc p (houses r) k" by (rule ak)
    show "\<forall>i<12. inArc p (houses r) i \<longrightarrow> i = k" by (rule u)
  qed
qed

text \<open>The cusps of the concrete chart, from 180 in steps of 30, and the longitude 0.\<close>

lemma swe_houses_example:
  "swe_houses (Num 2451545) 0 (- (10046061837 / 100000000)) SE_HSYS_PLACIDUS =
     Inr \<lparr>houses = [180, 210, 240, 270, 300, 330, 0, 30, 60, 90, 120, 150],
          ascendant = Some 180, mc = Some 90\<rparr>"
  by (simp add: swe_houses_def lst_example SE_HSYS_PLACIDUS_def
      SE_HSYS_KOCH_def SE_HSYS_EQUAL_def js_rem_def js_index_def Let_def upt_rec)

theorem houses_partition_witness:
  "getPlanetHouse 0 [180, 210, 240, 270, 300, 330, 0, 30, 60, 90, 120, 150] = 7 \<and>
   inArc 0 [180, 210, 240, 270, 300, 330, 0, 30, 60, 90, 120, 150] 6 \<and>
   \<not> inArc 0 [180, 210, 240, 270, 300, 330, 0, 30, 60, 90, 120, 150] 5 \<and>
   \<not> inArc 0 [180, 210, 240, 270, 300, 330, 0, 30, 60, 90, 120, 150] 7"
proof -
  have s: "(7::nat) - 1 = 6" by simp
  have "(0::real) \<le> 0" "(0::real) < 360" by simp_all
  note w = houses_partition [OF swe_houses_example this,
      unfolded houses_result.select_convs house_of_0 s]
  from w have a: "inArc 0 [180, 210, 240, 270, 300, 330, 0, 30, 60, 90, 120, 150] 6"
    by blast
  from w have u: "i < 12 \<Longrightarrow>
      inArc 0 [180, 210, 240, 270, 300, 330, 0, 30, 60, 90, 120, 150] i \<Longrightarrow> i = 6" for i
    by blast
  have n5: "\<not> inArc 0 [180, 210, 240, 270, 300, 330, 0, 30, 60, 90, 120, 150] 5"
    using u [of 5] by auto
  have n7: "\<not> inArc 0 [180, 210, 240, 270, 300, 330, 0, 30, 60, 90, 120, 150] 7"
    using u [of 7] by auto
  from house_of_0 a n5 n7 show ?thesis by blast
qed

end
